theory Spec2Isabelle
  imports Main
begin

section \<open>JavaScript values\<close>

text \<open>
  The data that crosses the access layer is JSON-like: response bodies, filter values,
  session fields. \<open>JNum n\<close> is the Number whose value is the integer \<open>n\<close> (identifiers,
  pages, status codes, millisecond timestamps); fractions and NaN are outside the model.
  An object is the list of its own enumerable properties in enumeration order; its keys
  are distinct and its property values are data, never functions.
\<close>

datatype json =
    JUndefined
  | JNull
  | JBool bool
  | JNum int
  | JStr string
  | JArr "json list"
  | JObj "(string \<times> json) list"

text \<open>ToBoolean: what \<open>if (x)\<close>, \<open>!x\<close> and \<open>x || y\<close> test.\<close>

fun truthy :: "json \<Rightarrow> bool" where
  "truthy JUndefined = False"
| "truthy JNull = False"
| "truthy (JBool b) = b"
| "truthy (JNum n) = (n \<noteq> 0)"
| "truthy (JStr s) = (s \<noteq> [])"
| "truthy (JArr xs) = True"
| "truthy (JObj kvs) = True"

text \<open>\<open>a || b\<close> yields \<open>a\<close> itself when it is truthy, otherwise \<open>b\<close>.\<close>

definition or_else :: "json \<Rightarrow> json \<Rightarrow> json" where
  "or_else a b = (if truthy a then a else b)"

subsection \<open>Rendering of numbers\<close>

text \<open>
  How a Number is rendered as a string (\<open>Number.prototype.toString\<close>) belongs to the
  platform: full decimal digits up to the safe integers, rounded digits beyond them,
  exponent notation from 1e21 on. The conversions below therefore take the rendering as
  a parameter. \<open>show_int\<close> is the plain decimal rendering, which agrees with the
  platform on the safe integers; the concrete environments further down use it on small
  numbers only.
\<close>

definition digit_char :: "nat \<Rightarrow> char" where
  "digit_char d = ''0123456789'' ! (d mod 10)"

function show_nat :: "nat \<Rightarrow> string" where
  "show_nat n = (if n < 10 then [digit_char n] else show_nat (n div 10) @ [digit_char (n mod 10)])"
  by pat_completeness auto
termination
  by (relation "measure id") auto

declare show_nat.simps [simp del]

definition show_int :: "int \<Rightarrow> string" where
  "show_int i = (if i < 0 then CHR ''-'' # show_nat (nat (- i)) else show_nat (nat i))"

fun join_with :: "string \<Rightarrow> string list \<Rightarrow> string" where
  "join_with sep [] = []"
| "join_with sep [x] = x"
| "join_with sep (x # y # ys) = x @ sep @ join_with sep (y # ys)"

text \<open>
  The string a value converts to, as template literals, \<open>.toString()\<close>, \<open>String(x)\<close>,
  the \<open>Error\<close> constructor and \<open>URLSearchParams.append\<close> produce it, given the
  rendering of numbers. An array joins its elements with a comma and renders \<open>null\<close> and
  \<open>undefined\<close> elements as the empty string; an object renders as \<open>[object Object]\<close>
  through the inherited \<open>toString\<close>.
\<close>

fun toStringJ :: "(int \<Rightarrow> string) \<Rightarrow> json \<Rightarrow> string" where
  "toStringJ numberToString JUndefined = ''undefined''"
| "toStringJ numberToString JNull = ''null''"
| "toStringJ numberToString (JBool b) = (if b then ''true'' else ''false'')"
| "toStringJ numberToString (JNum n) = numberToString n"
| "toStringJ numberToString (JStr s) = s"
| "toStringJ numberToString (JArr xs) =
     join_with '',''
       (map (\<lambda>x. if x = JUndefined \<or> x = JNull then [] else toStringJ numberToString x) xs)"
| "toStringJ numberToString (JObj kvs) = ''[object Object]''"


subsection \<open>Thrown values and property reads\<close>

text \<open>
  What a \<open>throw\<close> or a rejected promise carries: an \<open>Error\<close> instance with its message
  (\<open>TypeError\<close> and \<open>SyntaxError\<close> are \<open>Error\<close> instances too), or any other value, as
  \<open>Promise.reject(data)\<close> produces.
\<close>

datatype thrown = ErrorObj string | Rejected json

text \<open>
  Reading a property \<open>x.k\<close>: a \<open>TypeError\<close> on \<open>null\<close> and \<open>undefined\<close>, the
  property's value on an object that has it, \<open>undefined\<close> otherwise. Only the data
  properties \<open>message\<close> and \<open>errors\<close> are ever read this way.
\<close>

fun getProp :: "json \<Rightarrow> string \<Rightarrow> thrown + json" where
  "getProp JUndefined k =
     Inl (ErrorObj (''Cannot read properties of undefined (reading '' @ [CHR 0x27] @ k @ [CHR 0x27] @ '')''))"
| "getProp JNull k =
     Inl (ErrorObj (''Cannot read properties of null (reading '' @ [CHR 0x27] @ k @ [CHR 0x27] @ '')''))"
| "getProp (JObj kvs) k = Inr (case map_of kvs k of Some v \<Rightarrow> v | None \<Rightarrow> JUndefined)"
| "getProp v k = Inr JUndefined"

section \<open>Credential resolution (\<open>src/lib/auth\<close>)\<close>



record session_user =
  su_id :: json
  su_name :: json
  su_email :: json
  su_roles :: json
  su_permissions :: json

record session =
  s_user :: "session_user option"
  s_accessToken :: json
  s_expiresAt :: json







text \<open>
  \<open>session?.accessToken\<close>, as every resource operation reads it from the result of
  \<open>getServerSession\<close>; \<open>None\<close> is a \<open>null\<close> session.
\<close>

definition accessTokenOf :: "session option \<Rightarrow> json" where
  "accessTokenOf s = (case s of None \<Rightarrow> JUndefined | Some sess \<Rightarrow> s_accessToken sess)"



section \<open>Transport, configuration and effects\<close>

text \<open>
  A response as the operations read it: \<open>status\<close>, \<open>statusText\<close>, and the outcome of
  \<open>res.json()\<close>, which either yields the parsed body or throws. \<open>res.ok\<close> holds for the
  statuses 200 to 299.
\<close>

record response =
  status :: int
  statusText :: string
  body :: "thrown + json"

definition ok :: "response \<Rightarrow> bool" where
  "ok res = (200 \<le> status res \<and> status res \<le> 299)"

text \<open>
  A \<open>FormData\<close> is its entry list; an entry is a string or a file (named here by a
  string). A request has the method, the URL before the query, the query as the pair list
  of its \<open>URLSearchParams\<close>, the headers in source order, and the body.
  \<open>JSON.stringify(v)\<close> is identified with \<open>v\<close>.
\<close>

datatype fdvalue = FText string | FFile string

datatype reqbody = NoBody | JsonBody json | FormBody "(string \<times> fdvalue) list"

record request =
  httpMethod :: string
  url :: string
  query :: "(string \<times> string) list"
  headers :: "(string \<times> string) list"
  reqbody :: reqbody

text \<open>
  Everything outside the module that an operation consults: the environment variable,
  what \<open>getServerSession(authOptions)\<close> resolves to (a session, \<open>null\<close>, or a rejection),
  what \<open>fetch\<close> does with a request (a response, or a throw when no response arrives),
  which strings \<open>new URL\<close> accepts, and how the platform renders a Number as a string.
\<close>

record world =
  NEXT_PUBLIC_API_URL :: "string option"
  getServerSession :: "thrown + session option"
  fetch :: "request \<Rightarrow> thrown + response"
  validURL :: "string \<Rightarrow> bool"
  Number_toString :: "int \<Rightarrow> string"

text \<open>\<open>process.env.NEXT_PUBLIC_API_URL || "http://127.0.0.1:8000/api/v1"\<close>\<close>

definition API_BASE :: "world \<Rightarrow> string" where
  "API_BASE w =
     (case NEXT_PUBLIC_API_URL w of
        None \<Rightarrow> ''http://127.0.0.1:8000/api/v1''
      | Some s \<Rightarrow> if s \<noteq> [] then s else ''http://127.0.0.1:8000/api/v1'')"

text \<open>
  The effects of one call: the requests handed to \<open>fetch\<close>, and the tags passed to
  \<open>updateTag\<close>, both in order. Console output is not modelled. An operation yields
  \<open>Inr v\<close> when its promise fulfils with \<open>v\<close> and \<open>Inl e\<close> when it rejects with \<open>e\<close>.
\<close>

record effects =
  fetched :: "request list"
  updatedTags :: "string list"

definition noEffects :: effects where
  "noEffects = \<lparr>fetched = [], updatedTags = []\<rparr>"

type_synonym outcome = "(thrown + json) \<times> effects"

text \<open>\<open>error instanceof Error ? error.message : dflt\<close>\<close>

definition messageOr :: "thrown \<Rightarrow> string \<Rightarrow> string" where
  "messageOr e dflt = (case e of ErrorObj m \<Rightarrow> m | Rejected v \<Rightarrow> dflt)"

section \<open>Groups service\<close>

text \<open>
  \<open>params.hasOwnProperty(key)\<close> for a key enumerated from \<open>params\<close>: the function
  inherited from \<open>Object.prototype\<close> answers by membership among the own properties; an
  own property named \<open>hasOwnProperty\<close> shadows it, and calling a data value throws a
  \<open>TypeError\<close>.
\<close>

definition hasOwnProperty :: "(string \<times> json) list \<Rightarrow> string \<Rightarrow> thrown + bool" where
  "hasOwnProperty params key =
     (case map_of params ''hasOwnProperty'' of
        Some f \<Rightarrow> Inl (ErrorObj ''params.hasOwnProperty is not a function'')
      | None \<Rightarrow> Inr (key \<in> set (map fst params)))"

text \<open>
  The \<open>for (const key in params)\<close> loop of \<open>getGroupsCached\<close>, over the remaining
  properties, appending to the \<open>URLSearchParams\<close> built so far.
\<close>

fun groupsFilterLoop ::
  "(int \<Rightarrow> string) \<Rightarrow> (string \<times> json) list \<Rightarrow> (string \<times> json) list \<Rightarrow> (string \<times> string) list
     \<Rightarrow> thrown + (string \<times> string) list" where
  "groupsFilterLoop numberToString params [] urlParams = Inr urlParams"
| "groupsFilterLoop numberToString params ((key, v) # rest) urlParams =
     (if v \<noteq> JUndefined \<and> v \<noteq> JNull
      then (case hasOwnProperty params key of
              Inl e \<Rightarrow> Inl e
            | Inr own \<Rightarrow>
                if own
                then groupsFilterLoop numberToString params rest
                       (urlParams @ [(key, toStringJ numberToString v)])
                else groupsFilterLoop numberToString params rest urlParams)
      else groupsFilterLoop numberToString params rest urlParams)"

definition groupsQuery ::
  "(int \<Rightarrow> string) \<Rightarrow> int \<Rightarrow> (string \<times> json) list \<Rightarrow> thrown + (string \<times> string) list" where
  "groupsQuery numberToString page params =
     groupsFilterLoop numberToString params params [(''page'', numberToString page)]"

text \<open>
  \<open>getGroupsCached\<close>: the body that runs when the cache has no entry for the arguments.
\<close>

definition getGroupsCached :: "world \<Rightarrow> int \<Rightarrow> json \<Rightarrow> (string \<times> json) list \<Rightarrow> outcome" where
  "getGroupsCached w page token params =
     (let (r, fx) =
        (case groupsQuery (Number_toString w) page params of
           Inl e \<Rightarrow> (Inl e, noEffects)
         | Inr urlParams \<Rightarrow>
             let req = \<lparr>httpMethod = ''GET'', url = API_BASE w @ ''/groups'', query = urlParams,
                        headers = [(''Content-Type'', ''application/json''),
                                   (''Authorization'', ''Bearer '' @ toStringJ (Number_toString w) token)],
                        reqbody = NoBody\<rparr>;
                 fx = \<lparr>fetched = [req], updatedTags = []\<rparr>
             in (case fetch w req of
                   Inl e \<Rightarrow> (Inl e, fx)
                 | Inr res \<Rightarrow> (body res, fx)))
      in (case r of
            Inl error \<Rightarrow>
              (Inl (ErrorObj (messageOr error ''Unknown error occurred while fetching groups'')), fx)
          | Inr v \<Rightarrow> (Inr v, fx)))"

text \<open>
  \<open>getGroups\<close>: whatever the \<open>try\<close> block throws, the missing-token error included, is
  thrown again as a new \<open>Error\<close>.
\<close>

definition getGroups :: "world \<Rightarrow> int \<Rightarrow> (string \<times> json) list \<Rightarrow> outcome" where
  "getGroups w page params =
     (let (r, fx) =
        (case getServerSession w of
           Inl e \<Rightarrow> (Inl e, noEffects)
         | Inr sess \<Rightarrow>
             let token = accessTokenOf sess
             in if \<not> truthy token
                then (Inl (ErrorObj ''No valid session or access token found.''), noEffects)
                else getGroupsCached w page token params)
      in (case r of
            Inl error \<Rightarrow> (Inl (ErrorObj (messageOr error ''Failed to get groups'')), fx)
          | Inr v \<Rightarrow> (Inr v, fx)))"

text \<open>
  \<open>addGroup\<close>: without a token it returns a failure object; a non-success status becomes a
  failure object built from the body; success invalidates \<open>groups-list\<close>; the \<open>catch\<close>
  turns anything thrown into a failure object with code 500.
\<close>

definition addGroup :: "world \<Rightarrow> json \<Rightarrow> outcome" where
  "addGroup w groupData =
     (let (r, fx) =
        (case getServerSession w of
           Inl e \<Rightarrow> (Inl e, noEffects)
         | Inr sess \<Rightarrow>
             let token = accessTokenOf sess
             in if \<not> truthy token
                then (Inr (JObj [(''success'', JBool False),
                                 (''message'', JStr ''No valid session or access token found.''),
                                 (''errors'', JObj []),
                                 (''code'', JNum 401)]), noEffects)
                else
                  let req = \<lparr>httpMethod = ''POST'', url = API_BASE w @ ''/groups'', query = [],
                             headers = [(''Content-Type'', ''application/json''),
                                        (''Authorization'', ''Bearer '' @ toStringJ (Number_toString w) token)],
                             reqbody = JsonBody groupData\<rparr>;
                      fx = \<lparr>fetched = [req], updatedTags = []\<rparr>
                  in (case fetch w req of
                        Inl e \<Rightarrow> (Inl e, fx)
                      | Inr res \<Rightarrow>
                          (case body res of
                             Inl e \<Rightarrow> (Inl e, fx)
                           | Inr data \<Rightarrow>
                               if \<not> ok res
                               then (case getProp data ''message'' of
                                       Inl e \<Rightarrow> (Inl e, fx)
                                     | Inr m \<Rightarrow>
                                         (case getProp data ''errors'' of
                                            Inl e \<Rightarrow> (Inl e, fx)
                                          | Inr errs \<Rightarrow>
                                              (Inr (JObj [(''success'', JBool False),
                                                          (''message'', or_else m (JStr ''Failed to add group.'')),
                                                          (''errors'', errs),
                                                          (''code'', JNum (status res))]), fx)))
                               else (Inr data, fx\<lparr>updatedTags := [''groups-list'']\<rparr>))))
      in (case r of
            Inl (ErrorObj m) \<Rightarrow>
              (Inr (JObj [(''success'', JBool False),
                          (''message'', or_else (JStr m) (JStr ''An unexpected error occurred.'')),
                          (''code'', JNum 500)]), fx)
          | Inl (Rejected v) \<Rightarrow>
              (Inr (JObj [(''success'', JBool False),
                          (''message'', JStr ''An unexpected error occurred.''),
                          (''code'', JNum 500)]), fx)
          | Inr v \<Rightarrow> (Inr v, fx)))"

text \<open>
  \<open>getGroupById\<close>. The third component says whether a failure is thrown inside the \<open>try\<close>:
  \<open>return res.json()\<close> is not awaited there, so its rejection passes the \<open>catch\<close>
  untouched.
\<close>

definition getGroupById :: "world \<Rightarrow> string \<Rightarrow> outcome" where
  "getGroupById w ident =
     (let (r, fx, caught) =
        (case getServerSession w of
           Inl e \<Rightarrow> (Inl e, noEffects, True)
         | Inr sess \<Rightarrow>
             let token = accessTokenOf sess
             in if \<not> truthy token
                then (Inl (ErrorObj ''No valid session or access token found.''), noEffects, True)
                else
                  let req = \<lparr>httpMethod = ''GET'', url = API_BASE w @ ''/groups/'' @ ident, query = [],
                             headers = [(''Content-Type'', ''application/json''),
                                        (''Authorization'', ''Bearer '' @ toStringJ (Number_toString w) token)],
                             reqbody = NoBody\<rparr>;
                      fx = \<lparr>fetched = [req], updatedTags = []\<rparr>
                  in (case fetch w req of
                        Inl e \<Rightarrow> (Inl e, fx, True)
                      | Inr res \<Rightarrow>
                          if \<not> ok res
                          then (Inl (ErrorObj (''Failed to fetch group: '' @ statusText res)), fx, True)
                          else (body res, fx, False)))
      in (case r of
            Inl error \<Rightarrow>
              if caught
              then (Inl (ErrorObj (messageOr error ''Unknown error occurred while fetching group'')), fx)
              else (Inl error, fx)
          | Inr v \<Rightarrow> (Inr v, fx)))"

text \<open>The \<open>try\<close> block of \<open>updateGroup\<close>.\<close>

definition updateGroup_try :: "world \<Rightarrow> string \<Rightarrow> json \<Rightarrow> outcome" where
  "updateGroup_try w ident groupData =
     (case getServerSession w of
        Inl e \<Rightarrow> (Inl e, noEffects)
      | Inr sess \<Rightarrow>
          let token = accessTokenOf sess
          in if \<not> truthy token
             then (Inr (JObj [(''success'', JBool False),
                              (''message'', JStr ''No valid session or access token found.''),
                              (''code'', JNum 401)]), noEffects)
             else
               let req = \<lparr>httpMethod = ''PATCH'', url = API_BASE w @ ''/groups/'' @ ident, query = [],
                          headers = [(''Content-Type'', ''application/json''),
                                     (''Authorization'', ''Bearer '' @ toStringJ (Number_toString w) token)],
                          reqbody = JsonBody groupData\<rparr>;
                   fx = \<lparr>fetched = [req], updatedTags = []\<rparr>
               in (case fetch w req of
                     Inl e \<Rightarrow> (Inl e, fx)
                   | Inr res \<Rightarrow>
                       (case body res of
                          Inl e \<Rightarrow> (Inl e, fx)
                        | Inr data \<Rightarrow>
                            if \<not> ok res
                            then (case getProp data ''message'' of
                                    Inl e \<Rightarrow> (Inl e, fx)
                                  | Inr m \<Rightarrow>
                                      (case getProp data ''errors'' of
                                         Inl e \<Rightarrow> (Inl e, fx)
                                       | Inr errs \<Rightarrow>
                                           (Inr (JObj [(''success'', JBool False),
                                                       (''message'', or_else m (JStr ''Failed to update group.'')),
                                                       (''errors'', errs),
                                                       (''code'', JNum (status res))]), fx)))
                            else (Inr data, fx\<lparr>updatedTags := [''groups-list'']\<rparr>))))"

text \<open>\<open>updateGroup\<close>: the \<open>try\<close> block above under its \<open>catch\<close>.\<close>

definition updateGroup :: "world \<Rightarrow> string \<Rightarrow> json \<Rightarrow> outcome" where
  "updateGroup w ident groupData =
     (let (r, fx) = updateGroup_try w ident groupData
      in (case r of
            Inl error \<Rightarrow>
              (Inr (JObj [(''success'', JBool False),
                          (''message'', JStr ''An unexpected error occurred.''),
                          (''code'', JNum 500)]), fx)
          | Inr v \<Rightarrow> (Inr v, fx)))"

text \<open>
  \<open>deleteGroup\<close>: once the body has been read, \<open>updateTag\<close> is called and the body
  returned, without a test of the status.
\<close>

definition deleteGroup :: "world \<Rightarrow> int \<Rightarrow> outcome" where
  "deleteGroup w ident =
     (let (r, fx) =
        (case getServerSession w of
           Inl e \<Rightarrow> (Inl e, noEffects)
         | Inr sess \<Rightarrow>
             let token = accessTokenOf sess
             in if \<not> truthy token
                then (Inl (ErrorObj ''Unauthorized''), noEffects)
                else
                  let req = \<lparr>httpMethod = ''DELETE'', url = API_BASE w @ ''/groups/'' @ Number_toString w ident,
                             query = [],
                             headers = [(''Authorization'', ''Bearer '' @ toStringJ (Number_toString w) token),
                                        (''Content-Type'', ''application/json'')],
                             reqbody = NoBody\<rparr>;
                      fx = \<lparr>fetched = [req], updatedTags = []\<rparr>
                  in (case fetch w req of
                        Inl e \<Rightarrow> (Inl e, fx)
                      | Inr res \<Rightarrow>
                          (case body res of
                             Inl e \<Rightarrow> (Inl e, fx)
                           | Inr result \<Rightarrow> (Inr result, fx\<lparr>updatedTags := [''groups-list'']\<rparr>))))
      in (case r of
            Inl error \<Rightarrow> (Inl (ErrorObj (messageOr error ''Failed to delete groups'')), fx)
          | Inr v \<Rightarrow> (Inr v, fx)))"

section \<open>Courses service\<close>

text \<open>
  The \<open>Object.keys(params).forEach\<close> loop of \<open>getCoursesCached\<close>, over the remaining
  properties, appending to \<open>url.searchParams\<close>.
\<close>

fun coursesFilterLoop ::
  "(int \<Rightarrow> string) \<Rightarrow> (string \<times> json) list \<Rightarrow> (string \<times> string) list \<Rightarrow> (string \<times> string) list" where
  "coursesFilterLoop numberToString [] searchParams = searchParams"
| "coursesFilterLoop numberToString ((key, v) # rest) searchParams =
     (if truthy v
      then coursesFilterLoop numberToString rest (searchParams @ [(key, toStringJ numberToString v)])
      else coursesFilterLoop numberToString rest searchParams)"

text \<open>
  The query of the courses listing. \<open>params\<close> is \<open>None\<close> when the argument is \<open>null\<close> or
  \<open>undefined\<close>, which \<open>if (params)\<close> skips; an object is always truthy.
\<close>

definition coursesQuery ::
  "(int \<Rightarrow> string) \<Rightarrow> int \<Rightarrow> (string \<times> json) list option \<Rightarrow> (string \<times> string) list" where
  "coursesQuery numberToString page params =
     (case params of
        None \<Rightarrow> [(''page'', numberToString page)]
      | Some ps \<Rightarrow> coursesFilterLoop numberToString ps [(''page'', numberToString page)])"

text \<open>
  \<open>getCoursesCached\<close>, on a cache miss. \<open>return res.json()\<close> is not awaited inside the
  \<open>try\<close>, so a rejection of \<open>res.json()\<close> passes the \<open>catch\<close> untouched. In the \<open>catch\<close>,
  \<open>error.message\<close> is read from whatever was thrown.
\<close>

definition getCoursesCached :: "world \<Rightarrow> int \<Rightarrow> json \<Rightarrow> (string \<times> json) list option \<Rightarrow> outcome" where
  "getCoursesCached w page token params =
     (let (r, fx, caught) =
        (if \<not> validURL w (API_BASE w @ ''/courses'')
         then (Inl (ErrorObj ''Invalid URL''), noEffects, True)
         else
           let req = \<lparr>httpMethod = ''GET'', url = API_BASE w @ ''/courses'',
                      query = coursesQuery (Number_toString w) page params,
                      headers = [(''Content-Type'', ''application/json''),
                                 (''Authorization'', ''Bearer '' @ toStringJ (Number_toString w) token)],
                      reqbody = NoBody\<rparr>;
               fx = \<lparr>fetched = [req], updatedTags = []\<rparr>
           in (case fetch w req of
                 Inl e \<Rightarrow> (Inl e, fx, True)
               | Inr res \<Rightarrow>
                   if \<not> ok res
                   then (Inl (ErrorObj (''Failed to fetch courses: '' @ statusText res)), fx, True)
                   else (body res, fx, False)))
      in (case r of
            Inl error \<Rightarrow>
              if caught
              then (case error of
                      ErrorObj m \<Rightarrow>
                        (Inl (ErrorObj (toStringJ (Number_toString w) (or_else (JStr m)
                                (JStr ''An unknown error occurred while fetching courses.'')))), fx)
                    | Rejected v \<Rightarrow>
                        (case getProp v ''message'' of
                           Inl e \<Rightarrow> (Inl e, fx)
                         | Inr m \<Rightarrow>
                             (Inl (ErrorObj (toStringJ (Number_toString w) (or_else m
                                     (JStr ''An unknown error occurred while fetching courses.'')))), fx)))
              else (Inl error, fx)
          | Inr v \<Rightarrow> (Inr v, fx)))"

text \<open>\<open>getCourses\<close> has no \<open>try\<close> of its own.\<close>

definition getCourses :: "world \<Rightarrow> int \<Rightarrow> (string \<times> json) list option \<Rightarrow> outcome" where
  "getCourses w page params =
     (case getServerSession w of
        Inl e \<Rightarrow> (Inl e, noEffects)
      | Inr sess \<Rightarrow>
          let token = accessTokenOf sess
          in if \<not> truthy token
             then (Inl (ErrorObj ''No valid session or access token found.''), noEffects)
             else getCoursesCached w page token params)"

text \<open>
  The \<open>catch\<close> block shared in shape by \<open>createCourse\<close> and \<open>updateCourse\<close>: a thrown
  value with a truthy \<open>errors\<close> property is thrown again as it is; anything else becomes a
  new \<open>Error\<close>, with the message of an \<open>Error\<close> instance or the fallback text.
\<close>

definition courseCatch :: "string \<Rightarrow> thrown \<Rightarrow> thrown" where
  "courseCatch dflt error =
     (case error of
        ErrorObj m \<Rightarrow> ErrorObj m
      | Rejected v \<Rightarrow>
          (case getProp v ''errors'' of
             Inl e \<Rightarrow> e
           | Inr errs \<Rightarrow> if truthy errs then Rejected v else ErrorObj dflt))"

text \<open>
  The \<open>try\<close> block of a course mutation after the request is built. The third component
  says whether a failure is thrown inside the \<open>try\<close> (and so reaches the \<open>catch\<close>);
  \<open>return Promise.reject(data)\<close> is not awaited there and rejects the call directly.
\<close>

definition courseMutation :: "world \<Rightarrow> request \<Rightarrow> string \<Rightarrow> (thrown + json) \<times> effects \<times> bool" where
  "courseMutation w req failText =
     (let fx = \<lparr>fetched = [req], updatedTags = []\<rparr>
      in (case fetch w req of
            Inl e \<Rightarrow> (Inl e, fx, True)
          | Inr res \<Rightarrow>
              (case body res of
                 Inl e \<Rightarrow> (Inl e, fx, True)
               | Inr data \<Rightarrow>
                   if \<not> ok res
                   then (case (if status res = 422 then getProp data ''errors'' else Inr (JBool False)) of
                           Inl e \<Rightarrow> (Inl e, fx, True)
                         | Inr is422 \<Rightarrow>
                             if truthy is422 then (Inl (Rejected data), fx, False)
                             else (case getProp data ''message'' of
                                     Inl e \<Rightarrow> (Inl e, fx, True)
                                   | Inr m \<Rightarrow>
                                       (Inl (ErrorObj (toStringJ (Number_toString w) (or_else m
                                               (JStr (failText @ Number_toString w (status res)))))), fx, True)))
                   else (Inr data, fx\<lparr>updatedTags := [''courses-list'']\<rparr>, False))))"

text \<open>\<open>createCourse\<close> posts the form data as it is, with the bearer header only.\<close>

definition createCourse :: "world \<Rightarrow> (string \<times> fdvalue) list \<Rightarrow> outcome" where
  "createCourse w formData =
     (let (r, fx, caught) =
        (case getServerSession w of
           Inl e \<Rightarrow> (Inl e, noEffects, True)
         | Inr sess \<Rightarrow>
             let token = accessTokenOf sess
             in if \<not> truthy token
                then (Inl (ErrorObj ''No valid session or access token found.''), noEffects, True)
                else courseMutation w
                       \<lparr>httpMethod = ''POST'', url = API_BASE w @ ''/courses'', query = [],
                        headers = [(''Authorization'', ''Bearer '' @ toStringJ (Number_toString w) token)],
                        reqbody = FormBody formData\<rparr>
                       ''Failed to create course. Status: '')
      in (case r of
            Inl error \<Rightarrow>
              if caught
              then (Inl (courseCatch ''An unknown error occurred while creating the course.'' error), fx)
              else (Inl error, fx)
          | Inr v \<Rightarrow> (Inr v, fx)))"

text \<open>\<open>getCourseById\<close> has no \<open>try\<close>: every failure rejects the call as it is.\<close>

definition getCourseById :: "world \<Rightarrow> string \<Rightarrow> outcome" where
  "getCourseById w ident =
     (case getServerSession w of
        Inl e \<Rightarrow> (Inl e, noEffects)
      | Inr sess \<Rightarrow>
          let token = accessTokenOf sess
          in if \<not> truthy token
             then (Inl (ErrorObj ''No valid session or access token found.''), noEffects)
             else
               let req = \<lparr>httpMethod = ''GET'', url = API_BASE w @ ''/courses/'' @ ident, query = [],
                          headers = [(''Content-Type'', ''application/json''),
                                     (''Authorization'', ''Bearer '' @ toStringJ (Number_toString w) token)],
                          reqbody = NoBody\<rparr>;
                   fx = \<lparr>fetched = [req], updatedTags = []\<rparr>
               in (case fetch w req of
                     Inl e \<Rightarrow> (Inl e, fx)
                   | Inr res \<Rightarrow>
                       if \<not> ok res
                       then (Inl (ErrorObj (''Failed to fetch course: '' @ statusText res)), fx)
                       else (body res, fx)))"

text \<open>
  \<open>updateCourse\<close> appends the override entry \<open>_method = PATCH\<close> to the caller's form data
  before it sends it.
\<close>

definition updateCourse :: "world \<Rightarrow> string \<Rightarrow> (string \<times> fdvalue) list \<Rightarrow> outcome" where
  "updateCourse w ident formData =
     (let (r, fx, caught) =
        (case getServerSession w of
           Inl e \<Rightarrow> (Inl e, noEffects, True)
         | Inr sess \<Rightarrow>
             let token = accessTokenOf sess
             in if \<not> truthy token
                then (Inl (ErrorObj ''No valid session or access token found.''), noEffects, True)
                else courseMutation w
                       \<lparr>httpMethod = ''POST'', url = API_BASE w @ ''/courses/'' @ ident, query = [],
                        headers = [(''Authorization'', ''Bearer '' @ toStringJ (Number_toString w) token)],
                        reqbody = FormBody (formData @ [(''_method'', FText ''PATCH'')])\<rparr>
                       ''Failed to update course. Status: '')
      in (case r of
            Inl error \<Rightarrow>
              if caught
              then (Inl (courseCatch ''An unknown error occurred while updating the course.'' error), fx)
              else (Inl error, fx)
          | Inr v \<Rightarrow> (Inr v, fx)))"

text \<open>
  \<open>DeleteCourse\<close>. On a non-success status the body is read with a fallback to the empty
  object when \<open>res.json()\<close> fails.
\<close>

definition DeleteCourse :: "world \<Rightarrow> int \<Rightarrow> outcome" where
  "DeleteCourse w ident =
     (case getServerSession w of
        Inl e \<Rightarrow> (Inl e, noEffects)
      | Inr sess \<Rightarrow>
          let token = accessTokenOf sess
          in if \<not> truthy token
             then (Inl (ErrorObj ''No valid session or access token found.''), noEffects)
             else
               let req = \<lparr>httpMethod = ''DELETE'', url = API_BASE w @ ''/courses/'' @ Number_toString w ident,
                          query = [],
                          headers = [(''Authorization'', ''Bearer '' @ toStringJ (Number_toString w) token)],
                          reqbody = NoBody\<rparr>;
                   fx = \<lparr>fetched = [req], updatedTags = []\<rparr>
               in (case fetch w req of
                     Inl e \<Rightarrow> (Inl e, fx)
                   | Inr res \<Rightarrow>
                       if \<not> ok res
                       then (let errorData = (case body res of Inl e \<Rightarrow> JObj [] | Inr d \<Rightarrow> d)
                             in (case getProp errorData ''message'' of
                                   Inl e \<Rightarrow> (Inl e, fx)
                                 | Inr m \<Rightarrow>
                                     (Inl (ErrorObj (''Message: '' @ toStringJ (Number_toString w) (or_else m
                                             (JStr ''Failed to delete course'')))), fx)))
                       else (body res, fx\<lparr>updatedTags := [''courses-list'']\<rparr>)))"

section \<open>Outcome shapes and concrete environments\<close>

text \<open>
  The two shapes in which the operations report a missing credential: an \<open>Error\<close> thrown
  with one of the two messages of the source, or a returned object with \<open>success\<close> false
  and \<open>code\<close> 401.
\<close>

definition isUnauthenticated :: "thrown + json \<Rightarrow> bool" where
  "isUnauthenticated r =
     (case r of
        Inl (ErrorObj m) \<Rightarrow> m = ''No valid session or access token found.'' \<or> m = ''Unauthorized''
      | Inl (Rejected v) \<Rightarrow> False
      | Inr v \<Rightarrow> getProp v ''success'' = Inr (JBool False) \<and> getProp v ''code'' = Inr (JNum 401))"




definition exSession :: "json \<Rightarrow> session option" where
  "exSession tok = Some \<lparr>s_user = None, s_accessToken = tok, s_expiresAt = JNull\<rparr>"

definition exWorld :: "thrown + session option \<Rightarrow> thrown + response \<Rightarrow> world" where
  "exWorld s r =
     \<lparr>NEXT_PUBLIC_API_URL = None, getServerSession = s, fetch = (\<lambda>req. r),
      validURL = (\<lambda>u. True), Number_toString = show_int\<rparr>"

text \<open>
  A response with a given status and status text whose body parses to a given value, and
  the validation body \<open>{errors: {title: ["required"]}}\<close>.
\<close>

definition exResponse :: "int \<Rightarrow> string \<Rightarrow> json \<Rightarrow> response" where
  "exResponse st txt b = \<lparr>status = st, statusText = txt, body = Inr b\<rparr>"

definition titleRequired :: json where
  "titleRequired = JObj [(''errors'', JObj [(''title'', JArr [JStr ''required''])])]"

section \<open>Auxiliary facts\<close>

lemma show_nat_digit: "n < 10 \<Longrightarrow> show_nat n = [digit_char n]"
  by (simp add: show_nat.simps)

lemma show_int_digit: "0 \<le> i \<Longrightarrow> i < 10 \<Longrightarrow> show_int i = [digit_char (nat i)]"
  by (simp add: show_int_def show_nat_digit)

lemma exWorld_sel:
  "getServerSession (exWorld s r) = s"
  "fetch (exWorld s r) req = r"
  "validURL (exWorld s r) u = True"
  "API_BASE (exWorld s r) = ''http://127.0.0.1:8000/api/v1''"
  "Number_toString (exWorld s r) = show_int"
  by (simp_all add: exWorld_def API_BASE_def)

lemma exSession_token: "accessTokenOf (exSession tok) = tok"
  by (simp add: exSession_def accessTokenOf_def)

lemma exResponse_sel:
  "status (exResponse st txt b) = st"
  "statusText (exResponse st txt b) = txt"
  "body (exResponse st txt b) = Inr b"
  by (simp_all add: exResponse_def)


text \<open>
  The groups loop keeps, in order, the properties whose value is neither \<open>undefined\<close> nor
  \<open>null\<close>, as long as no own property shadows \<open>hasOwnProperty\<close>.
\<close>

lemma groupsFilterLoop_eq:
  assumes "map_of params ''hasOwnProperty'' = None" and "set rest \<subseteq> set params"
  shows "groupsFilterLoop ns params rest acc =
           Inr (acc @ map (\<lambda>(k, v). (k, toStringJ ns v))
                        (filter (\<lambda>(k, v). v \<noteq> JUndefined \<and> v \<noteq> JNull) rest))"
  using assms(2)
proof (induction rest arbitrary: acc)
  case Nil
  show ?case by simp
next
  case (Cons kv rest)
  obtain k v where kv: "kv = (k, v)" by (cases kv)
  from Cons.prems kv have mem: "k \<in> fst ` set params" by force
  from Cons.prems have sub: "set rest \<subseteq> set params" by simp
  show ?case
    using Cons.IH [OF sub] mem assms(1) by (simp add: kv hasOwnProperty_def)
qed

section \<open>Token expiry\<close>




section \<open>Missing credential\<close>

text \<open>
  C2: when the session yields no access token (a \<open>null\<close> session, or an \<open>accessToken\<close>
  that is \<open>null\<close>, \<open>undefined\<close> or empty), each of the ten operations ends in an
  unauthenticated outcome and hands no request to \<open>fetch\<close>.
\<close>

theorem C2_unauthenticated_no_fetch:
  assumes "getServerSession w = Inr sess" and "\<not> truthy (accessTokenOf sess)"
  shows "(isUnauthenticated (fst (getGroups w page params)) \<and> fetched (snd (getGroups w page params)) = [])
       \<and> (isUnauthenticated (fst (getGroupById w gid)) \<and> fetched (snd (getGroupById w gid)) = [])
       \<and> (isUnauthenticated (fst (addGroup w groupData)) \<and> fetched (snd (addGroup w groupData)) = [])
       \<and> (isUnauthenticated (fst (updateGroup w gid groupData))
            \<and> fetched (snd (updateGroup w gid groupData)) = [])
       \<and> (isUnauthenticated (fst (deleteGroup w n)) \<and> fetched (snd (deleteGroup w n)) = [])
       \<and> (isUnauthenticated (fst (getCourses w page cparams))
            \<and> fetched (snd (getCourses w page cparams)) = [])
       \<and> (isUnauthenticated (fst (getCourseById w cid)) \<and> fetched (snd (getCourseById w cid)) = [])
       \<and> (isUnauthenticated (fst (createCourse w formData))
            \<and> fetched (snd (createCourse w formData)) = [])
       \<and> (isUnauthenticated (fst (updateCourse w cid formData))
            \<and> fetched (snd (updateCourse w cid formData)) = [])
       \<and> (isUnauthenticated (fst (DeleteCourse w n)) \<and> fetched (snd (DeleteCourse w n)) = [])"
  using assms
  by (simp add: getGroups_def getGroupById_def addGroup_def updateGroup_def updateGroup_try_def
      deleteGroup_def getCourses_def getCourseById_def createCourse_def updateCourse_def
      DeleteCourse_def isUnauthenticated_def noEffects_def messageOr_def courseCatch_def)

theorem C2_unauthenticated_no_fetch_witness:
  "getServerSession (exWorld (Inr (exSession JNull)) (Inl (ErrorObj ''fetch failed'')))
     = Inr (exSession JNull)
   \<and> \<not> truthy (accessTokenOf (exSession JNull))
   \<and> isUnauthenticated
       (fst (addGroup (exWorld (Inr (exSession JNull)) (Inl (ErrorObj ''fetch failed''))) (JObj [])))
   \<and> fetched
       (snd (addGroup (exWorld (Inr (exSession JNull)) (Inl (ErrorObj ''fetch failed''))) (JObj []))) = []
   \<and> isUnauthenticated
       (fst (DeleteCourse (exWorld (Inr (exSession JNull)) (Inl (ErrorObj ''fetch failed''))) 5))
   \<and> fetched
       (snd (DeleteCourse (exWorld (Inr (exSession JNull)) (Inl (ErrorObj ''fetch failed''))) 5)) = []"
  using C2_unauthenticated_no_fetch
    [of "exWorld (Inr (exSession JNull)) (Inl (ErrorObj ''fetch failed''))" "exSession JNull"
        1 "[]" "''1''" "JObj []" 5 None "''1''" "[]"]
  by (simp add: exWorld_sel exSession_token)

section \<open>Validation failures\<close>

text \<open>
  C3, as stated: a create or update answered with status 422 and a field-error body
  returns a validation value rather than throwing. \<open>createCourse\<close> rejects instead: its
  promise fails with the response body itself.
\<close>

theorem C3_createCourse_rejects_counterexample:
  "fst (createCourse
          (exWorld (Inr (exSession (JStr ''tok''))) (Inr (exResponse 422 ''Unprocessable Content'' titleRequired)))
          [(''title'', FText [])])
   = Inl (Rejected (JObj [(''errors'', JObj [(''title'', JArr [JStr ''required''])])]))"
  by (simp add: createCourse_def courseMutation_def ok_def exWorld_sel exSession_token
      exResponse_sel titleRequired_def)

text \<open>
  C3, amended: on status 422 with a body whose \<open>errors\<close> property is present (truthy),
  \<open>addGroup\<close> and \<open>updateGroup\<close> return an object with \<open>success\<close> false, the body's
  \<open>errors\<close> and \<open>code\<close> 422, while \<open>createCourse\<close> and \<open>updateCourse\<close> reject with the
  response body, which carries the field-error map. None of the four invalidates a tag.
\<close>

theorem C3_validation_outcomes:
  assumes "getServerSession w = Inr sess" and "truthy (accessTokenOf sess)"
    and "\<forall>req. fetch w req = Inr res" and "status res = 422"
    and "body res = Inr data" and "getProp data ''errors'' = Inr errs" and "truthy errs"
    and "getProp data ''message'' = Inr m"
  shows "fst (addGroup w groupData) =
           Inr (JObj [(''success'', JBool False),
                      (''message'', or_else m (JStr ''Failed to add group.'')),
                      (''errors'', errs), (''code'', JNum 422)])
       \<and> updatedTags (snd (addGroup w groupData)) = []
       \<and> fst (updateGroup w ident groupData) =
           Inr (JObj [(''success'', JBool False),
                      (''message'', or_else m (JStr ''Failed to update group.'')),
                      (''errors'', errs), (''code'', JNum 422)])
       \<and> updatedTags (snd (updateGroup w ident groupData)) = []
       \<and> fst (createCourse w formData) = Inl (Rejected data)
       \<and> updatedTags (snd (createCourse w formData)) = []
       \<and> fst (updateCourse w ident formData) = Inl (Rejected data)
       \<and> updatedTags (snd (updateCourse w ident formData)) = []"
  using assms
  by (simp add: addGroup_def updateGroup_def updateGroup_try_def createCourse_def updateCourse_def
      courseMutation_def ok_def Let_def)

theorem C3_validation_outcomes_witness:
  "getServerSession (exWorld (Inr (exSession (JStr ''tok''))) (Inr (exResponse 422 ''Unprocessable Content'' titleRequired)))
     = Inr (exSession (JStr ''tok''))
   \<and> truthy (accessTokenOf (exSession (JStr ''tok'')))
   \<and> (\<forall>req. fetch (exWorld (Inr (exSession (JStr ''tok'')))
                      (Inr (exResponse 422 ''Unprocessable Content'' titleRequired))) req
              = Inr (exResponse 422 ''Unprocessable Content'' titleRequired))
   \<and> status (exResponse 422 ''Unprocessable Content'' titleRequired) = 422
   \<and> body (exResponse 422 ''Unprocessable Content'' titleRequired) = Inr titleRequired
   \<and> getProp titleRequired ''errors'' = Inr (JObj [(''title'', JArr [JStr ''required''])])
   \<and> truthy (JObj [(''title'', JArr [JStr ''required''])])
   \<and> getProp titleRequired ''message'' = Inr JUndefined
   \<and> fst (addGroup
            (exWorld (Inr (exSession (JStr ''tok''))) (Inr (exResponse 422 ''Unprocessable Content'' titleRequired))) (JObj []))
       = Inr (JObj [(''success'', JBool False), (''message'', JStr ''Failed to add group.''),
                    (''errors'', JObj [(''title'', JArr [JStr ''required''])]),
                    (''code'', JNum 422)])
   \<and> fst (updateCourse
            (exWorld (Inr (exSession (JStr ''tok''))) (Inr (exResponse 422 ''Unprocessable Content'' titleRequired))) ''9'' [])
       = Inl (Rejected titleRequired)"
  using C3_validation_outcomes
    [of "exWorld (Inr (exSession (JStr ''tok''))) (Inr (exResponse 422 ''Unprocessable Content'' titleRequired))"
        "exSession (JStr ''tok'')" "exResponse 422 ''Unprocessable Content'' titleRequired" titleRequired
        "JObj [(''title'', JArr [JStr ''required''])]" JUndefined "JObj []" "''9''" "[]"]
  by (simp add: exWorld_sel exSession_token exResponse_sel or_else_def titleRequired_def)

section \<open>Filter omission\<close>

text \<open>
  C4: filter entries whose value is the empty string, \<open>undefined\<close> or \<open>null\<close> are left out
  of the query. \<open>getCoursesCached\<close> leaves out every falsy value, the empty string among
  them; \<open>getGroupsCached\<close> tests only for \<open>undefined\<close> and \<open>null\<close>. Evaluated on the
  filter mapping \<open>{search: "", level: undefined, division_id: "3"}\<close>, the groups listing
  puts \<open>search\<close> with an empty value into the query of the request it sends, while the
  courses listing on the same mapping sends \<open>division_id\<close> only.
\<close>

theorem C4_getGroups_sends_empty_search:
  "groupsQuery show_int 1
     [(''search'', JStr []), (''level'', JUndefined), (''division_id'', JStr ''3'')]
   = Inr [(''page'', ''1''), (''search'', []), (''division_id'', ''3'')]
   \<and> fetched (snd (getGroups
                     (exWorld (Inr (exSession (JStr ''tok''))) (Inr (exResponse 200 ''OK'' (JObj []))))
                     1 [(''search'', JStr []), (''level'', JUndefined), (''division_id'', JStr ''3'')]))
       = [\<lparr>httpMethod = ''GET'', url = ''http://127.0.0.1:8000/api/v1/groups'',
           query = [(''page'', ''1''), (''search'', []), (''division_id'', ''3'')],
           headers = [(''Content-Type'', ''application/json''),
                      (''Authorization'', ''Bearer tok'')],
           reqbody = NoBody\<rparr>]
   \<and> coursesQuery show_int 1
        (Some [(''search'', JStr []), (''level'', JUndefined), (''division_id'', JStr ''3'')])
       = [(''page'', ''1''), (''division_id'', ''3'')]"
  by (simp add: getGroups_def getGroupsCached_def groupsQuery_def coursesQuery_def
      hasOwnProperty_def show_int_digit digit_char_def exWorld_sel exSession_token exResponse_sel)

section \<open>Non-success status on a listing\<close>

text \<open>
  C5: a listing answered with a non-success status fails instead of returning the body.
  \<open>getCoursesCached\<close> and \<open>getGroupById\<close> test \<open>res.ok\<close> and throw; \<open>getGroupsCached\<close>
  has no such test. Evaluated on a status 500 answer, \<open>getGroups\<close> fulfils with the error
  body as if it were a listing.
\<close>

theorem C5_getGroups_returns_error_body:
  "getGroups
     (exWorld (Inr (exSession (JStr ''tok'')))
        (Inr (exResponse 500 ''Internal Server Error''
                (JObj [(''success'', JBool False), (''message'', JStr ''Server Error'')]))))
     1 []
   = (Inr (JObj [(''success'', JBool False), (''message'', JStr ''Server Error'')]),
      \<lparr>fetched = [\<lparr>httpMethod = ''GET'', url = ''http://127.0.0.1:8000/api/v1/groups'',
                    query = [(''page'', ''1'')],
                    headers = [(''Content-Type'', ''application/json''),
                               (''Authorization'', ''Bearer tok'')],
                    reqbody = NoBody\<rparr>],
        updatedTags = []\<rparr>)"
  by (simp add: getGroups_def getGroupsCached_def groupsQuery_def show_int_digit digit_char_def
      exWorld_sel exSession_token exResponse_sel)

section \<open>Cache tag invalidation\<close>

text \<open>
  C6: a mutation invalidates the list tag when and only when it succeeds. \<open>addGroup\<close>,
  \<open>updateGroup\<close> and the course mutations test \<open>res.ok\<close> before \<open>updateTag\<close>;
  \<open>deleteGroup\<close> does not. Evaluated on a status 404 answer, \<open>deleteGroup\<close> invalidates
  \<open>groups-list\<close> and fulfils with the error body.
\<close>

theorem C6_deleteGroup_invalidates_on_failure:
  "deleteGroup
     (exWorld (Inr (exSession (JStr ''tok'')))
        (Inr (exResponse 404 ''Not Found''
                (JObj [(''success'', JBool False), (''message'', JStr ''Group not found'')]))))
     5
   = (Inr (JObj [(''success'', JBool False), (''message'', JStr ''Group not found'')]),
      \<lparr>fetched = [\<lparr>httpMethod = ''DELETE'', url = ''http://127.0.0.1:8000/api/v1/groups/5'',
                    query = [],
                    headers = [(''Authorization'', ''Bearer tok''),
                               (''Content-Type'', ''application/json'')],
                    reqbody = NoBody\<rparr>],
        updatedTags = [''groups-list'']\<rparr>)"
  by (simp add: deleteGroup_def show_int_digit digit_char_def exWorld_sel exSession_token
      exResponse_sel)

section \<open>Network failure\<close>

text \<open>
  C7, as stated: when the transport throws, the outcome is a failure result with the
  sentinel code 0. No operation produces code 0: \<open>addGroup\<close> answers a thrown
  \<open>fetch failed\<close> with code 500.
\<close>

theorem C7_addGroup_code_500_counterexample:
  "fst (addGroup (exWorld (Inr (exSession (JStr ''tok''))) (Inl (ErrorObj ''fetch failed'')))
          (JObj [(''group_name'', JStr ''A'')]))
   = Inr (JObj [(''success'', JBool False), (''message'', JStr ''fetch failed''), (''code'', JNum 500)])"
  by (simp add: addGroup_def or_else_def exWorld_sel exSession_token)

text \<open>
  C7, amended: when \<open>fetch\<close> throws an \<open>Error\<close> with message \<open>m\<close> and a token is present,
  \<open>addGroup\<close> returns a failure object with code 500 and message \<open>m\<close> (the generic text
  when \<open>m\<close> is empty), \<open>updateGroup\<close> returns a failure object with code 500 and the
  generic text, and every other operation rejects with an \<open>Error\<close> whose message is \<open>m\<close>
  (for \<open>getCourses\<close>, its fallback text when \<open>m\<close> is empty). The listing filters are
  assumed not to shadow \<open>hasOwnProperty\<close>, and the courses URL to be well formed, so that
  the request is reached.
\<close>

theorem C7_network_failure_outcomes:
  assumes "getServerSession w = Inr sess" and "truthy (accessTokenOf sess)"
    and "\<forall>req. fetch w req = Inl (ErrorObj m)"
    and "map_of params ''hasOwnProperty'' = None" and "validURL w (API_BASE w @ ''/courses'')"
  shows "fst (addGroup w groupData) =
           Inr (JObj [(''success'', JBool False),
                      (''message'', JStr (if m = [] then ''An unexpected error occurred.'' else m)),
                      (''code'', JNum 500)])
       \<and> fst (updateGroup w gid groupData) =
           Inr (JObj [(''success'', JBool False),
                      (''message'', JStr ''An unexpected error occurred.''),
                      (''code'', JNum 500)])
       \<and> fst (getGroups w page params) = Inl (ErrorObj m)
       \<and> fst (getGroupById w gid) = Inl (ErrorObj m)
       \<and> fst (deleteGroup w n) = Inl (ErrorObj m)
       \<and> fst (getCourses w page cparams) =
           Inl (ErrorObj (if m = [] then ''An unknown error occurred while fetching courses.'' else m))
       \<and> fst (getCourseById w cid) = Inl (ErrorObj m)
       \<and> fst (createCourse w formData) = Inl (ErrorObj m)
       \<and> fst (updateCourse w cid formData) = Inl (ErrorObj m)
       \<and> fst (DeleteCourse w n) = Inl (ErrorObj m)"
  using assms
  by (simp add: addGroup_def updateGroup_def updateGroup_try_def getGroups_def getGroupsCached_def
      getGroupById_def deleteGroup_def getCourses_def getCoursesCached_def getCourseById_def
      createCourse_def updateCourse_def DeleteCourse_def courseMutation_def courseCatch_def
      messageOr_def or_else_def groupsQuery_def groupsFilterLoop_eq Let_def)

theorem C7_network_failure_outcomes_witness:
  "getServerSession (exWorld (Inr (exSession (JStr ''tok''))) (Inl (ErrorObj ''fetch failed'')))
     = Inr (exSession (JStr ''tok''))
   \<and> truthy (accessTokenOf (exSession (JStr ''tok'')))
   \<and> (\<forall>req. fetch (exWorld (Inr (exSession (JStr ''tok''))) (Inl (ErrorObj ''fetch failed''))) req
              = Inl (ErrorObj ''fetch failed''))
   \<and> map_of [(''search'', JStr ''a'')] ''hasOwnProperty'' = None
   \<and> validURL (exWorld (Inr (exSession (JStr ''tok''))) (Inl (ErrorObj ''fetch failed'')))
        (API_BASE (exWorld (Inr (exSession (JStr ''tok''))) (Inl (ErrorObj ''fetch failed'')))
           @ ''/courses'')
   \<and> fst (updateGroup (exWorld (Inr (exSession (JStr ''tok''))) (Inl (ErrorObj ''fetch failed'')))
            ''4'' (JObj []))
       = Inr (JObj [(''success'', JBool False),
                    (''message'', JStr ''An unexpected error occurred.''),
                    (''code'', JNum 500)])
   \<and> fst (getGroups (exWorld (Inr (exSession (JStr ''tok''))) (Inl (ErrorObj ''fetch failed'')))
            1 [(''search'', JStr ''a'')])
       = Inl (ErrorObj ''fetch failed'')
   \<and> fst (DeleteCourse (exWorld (Inr (exSession (JStr ''tok''))) (Inl (ErrorObj ''fetch failed''))) 5)
       = Inl (ErrorObj ''fetch failed'')"
  using C7_network_failure_outcomes
    [of "exWorld (Inr (exSession (JStr ''tok''))) (Inl (ErrorObj ''fetch failed''))"
        "exSession (JStr ''tok'')" "''fetch failed''" "[(''search'', JStr ''a'')]"
        "JObj []" "''4''" 1 5 None "''4''" "[]"]
  by (simp add: exWorld_sel exSession_token)

section \<open>Transport shape of updates\<close>

text \<open>
  C8: with a token present, \<open>updateCourse\<close> issues exactly one request, a \<open>POST\<close> to
  \<open>{base}/courses/{id}\<close> whose multipart body is the caller's form data followed by the
  override entry \<open>_method = PATCH\<close>, and \<open>updateGroup\<close> issues exactly one request, a
  \<open>PATCH\<close> to \<open>{base}/groups/{id}\<close> with the JSON payload. Both carry the bearer token.
\<close>

theorem C8_update_requests:
  assumes "getServerSession w = Inr sess" and "truthy (accessTokenOf sess)"
  shows "fetched (snd (updateCourse w ident formData)) =
           [\<lparr>httpMethod = ''POST'', url = API_BASE w @ ''/courses/'' @ ident, query = [],
             headers = [(''Authorization'', ''Bearer '' @ toStringJ (Number_toString w) (accessTokenOf sess))],
             reqbody = FormBody (formData @ [(''_method'', FText ''PATCH'')])\<rparr>]
       \<and> fetched (snd (updateGroup w ident groupData)) =
           [\<lparr>httpMethod = ''PATCH'', url = API_BASE w @ ''/groups/'' @ ident, query = [],
             headers = [(''Content-Type'', ''application/json''),
                        (''Authorization'', ''Bearer '' @ toStringJ (Number_toString w) (accessTokenOf sess))],
             reqbody = JsonBody groupData\<rparr>]"
  using assms
  by (simp add: updateCourse_def updateGroup_def updateGroup_try_def courseMutation_def Let_def
      split: sum.splits prod.splits)

theorem C8_update_requests_witness:
  "getServerSession
     (exWorld (Inr (exSession (JStr ''tok''))) (Inr (exResponse 200 ''OK'' (JObj []))))
     = Inr (exSession (JStr ''tok''))
   \<and> truthy (accessTokenOf (exSession (JStr ''tok'')))
   \<and> fetched (snd (updateCourse
                     (exWorld (Inr (exSession (JStr ''tok''))) (Inr (exResponse 200 ''OK'' (JObj []))))
                     ''9'' [(''title'', FText ''Algebra'')]))
       = [\<lparr>httpMethod = ''POST'', url = ''http://127.0.0.1:8000/api/v1/courses/9'', query = [],
           headers = [(''Authorization'', ''Bearer tok'')],
           reqbody = FormBody [(''title'', FText ''Algebra''), (''_method'', FText ''PATCH'')]\<rparr>]
   \<and> fetched (snd (updateGroup
                     (exWorld (Inr (exSession (JStr ''tok''))) (Inr (exResponse 200 ''OK'' (JObj []))))
                     ''9'' (JObj [(''group_name'', JStr ''A'')])))
       = [\<lparr>httpMethod = ''PATCH'', url = ''http://127.0.0.1:8000/api/v1/groups/9'', query = [],
           headers = [(''Content-Type'', ''application/json''), (''Authorization'', ''Bearer tok'')],
           reqbody = JsonBody (JObj [(''group_name'', JStr ''A'')])\<rparr>]"
  using C8_update_requests
    [of "exWorld (Inr (exSession (JStr ''tok''))) (Inr (exResponse 200 ''OK'' (JObj [])))"
        "exSession (JStr ''tok'')" "''9''" "[(''title'', FText ''Algebra'')]"
        "JObj [(''group_name'', JStr ''A'')]"]
  by (simp add: exWorld_sel exSession_token)

section \<open>The catch block of \<open>updateGroup\<close>\<close>

text \<open>
  C9: whatever is thrown inside the \<open>try\<close> block of \<open>updateGroup\<close>, the call returns the
  fixed object with message \<open>An unexpected error occurred.\<close> and code 500; the thrown
  value does not appear in it. In particular this is the outcome whenever \<open>fetch\<close> throws.
\<close>

theorem C9_updateGroup_generic_failure:
  "(fst (updateGroup_try w ident groupData) = Inl e \<longrightarrow>
      fst (updateGroup w ident groupData) =
        Inr (JObj [(''success'', JBool False),
                   (''message'', JStr ''An unexpected error occurred.''),
                   (''code'', JNum 500)]))
   \<and> (getServerSession w = Inr sess \<and> truthy (accessTokenOf sess) \<and> (\<forall>req. fetch w req = Inl e)
        \<longrightarrow> fst (updateGroup w ident groupData) =
          Inr (JObj [(''success'', JBool False),
                     (''message'', JStr ''An unexpected error occurred.''),
                     (''code'', JNum 500)]))"
  by (simp add: updateGroup_def updateGroup_try_def Let_def split: prod.splits)

theorem C9_updateGroup_generic_failure_witness:
  "fst (updateGroup_try
          (exWorld (Inr (exSession (JStr ''tok''))) (Inl (ErrorObj ''connect ECONNREFUSED'')))
          ''4'' (JObj []))
     = Inl (ErrorObj ''connect ECONNREFUSED'')
   \<and> getServerSession
        (exWorld (Inr (exSession (JStr ''tok''))) (Inl (ErrorObj ''connect ECONNREFUSED'')))
       = Inr (exSession (JStr ''tok''))
   \<and> truthy (accessTokenOf (exSession (JStr ''tok'')))
   \<and> (\<forall>req. fetch (exWorld (Inr (exSession (JStr ''tok'')))
                      (Inl (ErrorObj ''connect ECONNREFUSED''))) req
              = Inl (ErrorObj ''connect ECONNREFUSED''))
   \<and> fst (updateGroup
            (exWorld (Inr (exSession (JStr ''tok''))) (Inl (ErrorObj ''connect ECONNREFUSED'')))
            ''4'' (JObj []))
       = Inr (JObj [(''success'', JBool False),
                    (''message'', JStr ''An unexpected error occurred.''),
                    (''code'', JNum 500)])"
  using C9_updateGroup_generic_failure
    [of "exWorld (Inr (exSession (JStr ''tok''))) (Inl (ErrorObj ''connect ECONNREFUSED''))"
        "''4''" "JObj []" "ErrorObj ''connect ECONNREFUSED''" "exSession (JStr ''tok'')"]
  by (simp add: updateGroup_try_def exWorld_sel exSession_token)

section \<open>How a missing credential is surfaced\<close>

text \<open>
  C10: with no access token, \<open>addGroup\<close> and \<open>updateGroup\<close> return an object with
  \<open>success\<close> false and \<open>code\<close> 401 without throwing, whereas \<open>getGroups\<close>,
  \<open>getGroupById\<close>, \<open>deleteGroup\<close> and the five course operations reject with an \<open>Error\<close>
  whose message is \<open>No valid session or access token found.\<close>, or \<open>Unauthorized\<close> for
  \<open>deleteGroup\<close>.
\<close>

theorem C10_unauthenticated_shapes:
  assumes "getServerSession w = Inr sess" and "\<not> truthy (accessTokenOf sess)"
  shows "fst (addGroup w groupData) =
           Inr (JObj [(''success'', JBool False),
                      (''message'', JStr ''No valid session or access token found.''),
                      (''errors'', JObj []), (''code'', JNum 401)])
       \<and> fst (updateGroup w gid groupData) =
           Inr (JObj [(''success'', JBool False),
                      (''message'', JStr ''No valid session or access token found.''),
                      (''code'', JNum 401)])
       \<and> fst (getGroups w page params) = Inl (ErrorObj ''No valid session or access token found.'')
       \<and> fst (getGroupById w gid) = Inl (ErrorObj ''No valid session or access token found.'')
       \<and> fst (deleteGroup w n) = Inl (ErrorObj ''Unauthorized'')
       \<and> fst (getCourses w page cparams) = Inl (ErrorObj ''No valid session or access token found.'')
       \<and> fst (getCourseById w cid) = Inl (ErrorObj ''No valid session or access token found.'')
       \<and> fst (createCourse w formData) = Inl (ErrorObj ''No valid session or access token found.'')
       \<and> fst (updateCourse w cid formData) = Inl (ErrorObj ''No valid session or access token found.'')
       \<and> fst (DeleteCourse w n) = Inl (ErrorObj ''No valid session or access token found.'')"
  using assms
  by (simp add: getGroups_def getGroupById_def addGroup_def updateGroup_def updateGroup_try_def
      deleteGroup_def getCourses_def getCourseById_def createCourse_def updateCourse_def
      DeleteCourse_def noEffects_def messageOr_def courseCatch_def)

theorem C10_unauthenticated_shapes_witness:
  "getServerSession (exWorld (Inr None) (Inl (ErrorObj ''fetch failed''))) = Inr None
   \<and> \<not> truthy (accessTokenOf None)
   \<and> fst (updateGroup (exWorld (Inr None) (Inl (ErrorObj ''fetch failed''))) ''4'' (JObj []))
       = Inr (JObj [(''success'', JBool False),
                    (''message'', JStr ''No valid session or access token found.''),
                    (''code'', JNum 401)])
   \<and> fst (deleteGroup (exWorld (Inr None) (Inl (ErrorObj ''fetch failed''))) 4)
       = Inl (ErrorObj ''Unauthorized'')
   \<and> fst (getCourses (exWorld (Inr None) (Inl (ErrorObj ''fetch failed''))) 1 None)
       = Inl (ErrorObj ''No valid session or access token found.'')"
  using C10_unauthenticated_shapes
    [of "exWorld (Inr None) (Inl (ErrorObj ''fetch failed''))" None "JObj []" "''4''" 1 "[]" 4
        None "''4''" "[]"]
  by (simp add: exWorld_sel accessTokenOf_def)

end
